theory Spec2Isabelle
  imports Complex_Main
begin

section \<open>Values of the host language\<close>

text \<open>
  A JavaScript \<open>number\<close> is modelled by an exact rational (\<open>rat\<close>): the finite values,
  with exact arithmetic. \<open>NaN\<close> and the infinities are not values of this model, and
  the rounding error of binary floating point is not represented. Identifiers and
  counts, which the application only compares and counts, are integers.
\<close>

text \<open>\<open>Math.round\<close>: the nearest integer, a tie going towards plus infinity.\<close>

definition Math_round :: "rat \<Rightarrow> rat" where
  "Math_round x = of_int \<lfloor>x + 1 / 2\<rfloor>"

text \<open>The idiom \<open>Math.round(x * 100) / 100\<close> of the services.\<close>

definition round2 :: "rat \<Rightarrow> rat" where
  "round2 x = Math_round (x * 100) / 100"

text \<open>\<open>x || 0\<close> on a number, and on an optional number (\<open>undefined\<close> is \<open>None\<close>).\<close>

definition or_zero :: "rat \<Rightarrow> rat" where
  "or_zero x = (if x = 0 then 0 else x)"

definition opt_or_zero :: "rat option \<Rightarrow> rat" where
  "opt_or_zero x = (case x of None \<Rightarrow> 0 | Some v \<Rightarrow> or_zero v)"

text \<open>
  A \<open>Date\<close> object holds a time value in milliseconds, or \<open>NaN\<close> (an invalid date),
  which is \<open>None\<close> here. A field of type \<open>Date | string\<close> is a \<open>date_field\<close>.
  Parsing a date string (\<open>Date.parse\<close>) belongs to the host; it is the parameter
  \<open>parse\<close> of every function that constructs a date from a string.
\<close>

datatype js_date = Date (getTime: "int option")

datatype date_field = DateStr string | DateObj js_date

type_synonym date_parser = "string \<Rightarrow> int option"

text \<open>\<open>new Date(value)\<close> for a value of type \<open>Date | string\<close>.\<close>

fun new_Date :: "date_parser \<Rightarrow> date_field \<Rightarrow> js_date" where
  "new_Date parse (DateStr s) = Date (parse s)"
| "new_Date parse (DateObj d) = Date (getTime d)"

text \<open>\<open>typeof v === 'string'\<close> and truthiness, for an optional \<open>Date | string\<close>.\<close>

fun is_string :: "date_field option \<Rightarrow> bool" where
  "is_string (Some (DateStr s)) = True"
| "is_string (Some (DateObj d)) = False"
| "is_string None = False"

fun truthy :: "date_field option \<Rightarrow> bool" where
  "truthy (Some (DateStr s)) = (s \<noteq> [])"
| "truthy (Some (DateObj d)) = True"
| "truthy None = False"



text \<open>
  The clock: \<open>clock k\<close> is the text returned by the \<open>k\<close>-th evaluation of
  \<open>new Date().toISOString()\<close> within one call of a service method.
\<close>

type_synonym clock = "nat \<Rightarrow> string"

section \<open>The data model\<close>

datatype EnrollmentStatus = ENROLLED | IN_PROGRESS | COMPLETED | DROPPED | SUSPENDED | PENDING


record Enrollment =
  e_id :: int
  e_courseId :: int
  e_studentId :: int
  e_enrollmentDate :: date_field
  e_completionDate :: "date_field option"
  e_status :: EnrollmentStatus
  e_progress :: rat
  e_grade :: "rat option"
  e_certificateIssued :: "bool option"
  e_lastAccessedDate :: "date_field option"
  e_totalHoursSpent :: "rat option"
  e_completedModules :: "rat option"
  e_totalModules :: "rat option"
  e_feedback :: "string option"
  e_rating :: "rat option"

text \<open>\<open>Partial<Enrollment>\<close>: the body of an update; an absent property is \<open>None\<close>.\<close>

record EnrollmentPartial =
  u_id :: "int option"
  u_courseId :: "int option"
  u_studentId :: "int option"
  u_enrollmentDate :: "date_field option"
  u_completionDate :: "date_field option"
  u_status :: "EnrollmentStatus option"
  u_progress :: "rat option"
  u_grade :: "rat option"
  u_certificateIssued :: "bool option"
  u_lastAccessedDate :: "date_field option"
  u_totalHoursSpent :: "rat option"
  u_completedModules :: "rat option"
  u_totalModules :: "rat option"
  u_feedback :: "string option"
  u_rating :: "rat option"

text \<open>The object literal \<open>{}\<close> at type \<open>Partial<Enrollment>\<close>.\<close>

definition no_updates :: EnrollmentPartial where
  "no_updates =
     \<lparr>u_id = None, u_courseId = None, u_studentId = None, u_enrollmentDate = None,
      u_completionDate = None, u_status = None, u_progress = None, u_grade = None,
      u_certificateIssued = None, u_lastAccessedDate = None, u_totalHoursSpent = None,
      u_completedModules = None, u_totalModules = None, u_feedback = None,
      u_rating = None\<rparr>"

record EnrollmentRequest =
  r_courseId :: int
  r_studentId :: int
  r_enrollmentDate :: "date_field option"

record EnrollmentStats =
  totalEnrollments :: nat
  activeEnrollments :: nat
  completedEnrollments :: nat
  droppedEnrollments :: nat
  averageProgress :: rat
  averageGrade :: rat
  completionRate :: rat

record Course =
  c_id :: int
  c_title :: string
  c_description :: string
  c_category :: string
  c_level :: string
  c_duration :: rat
  c_price :: rat
  c_instructor :: string
  c_thumbnail :: "string option"
  c_createdAt :: date_field
  c_updatedAt :: "date_field option"
  c_popularity :: rat
  c_enrollmentCount :: int
  c_isActive :: bool
  c_tags :: "string list option"
  c_prerequisites :: "string list option"
  c_learningOutcomes :: "string list option"
  c_maxStudents :: "rat option"

text \<open>
  \<open>Partial<Course>\<close>, which also carries the argument of \<open>createCourse\<close>
  (an \<open>Omit<Course, 'id'>\<close>) and the bodies built from it by object spread.
\<close>

record CoursePartial =
  cu_id :: "int option"
  cu_title :: "string option"
  cu_description :: "string option"
  cu_category :: "string option"
  cu_level :: "string option"
  cu_duration :: "rat option"
  cu_price :: "rat option"
  cu_instructor :: "string option"
  cu_thumbnail :: "string option"
  cu_createdAt :: "date_field option"
  cu_updatedAt :: "date_field option"
  cu_popularity :: "rat option"
  cu_enrollmentCount :: "int option"
  cu_isActive :: "bool option"
  cu_tags :: "string list option"
  cu_prerequisites :: "string list option"
  cu_learningOutcomes :: "string list option"
  cu_maxStudents :: "rat option"

datatype StudentStatus = ACTIVE | INACTIVE | STUDENT_SUSPENDED | GRADUATED

record Address =
  street :: "string option"
  city :: string
  state :: "string option"
  country :: string
  zipCode :: "string option"

record Student =
  s_id :: int
  s_name :: string
  s_email :: string
  s_phone :: "string option"
  s_dateOfBirth :: "date_field option"
  s_address :: "Address option"
  s_enrolledCourses :: "int list"
  s_createdAt :: date_field
  s_updatedAt :: "date_field option"
  s_status :: StudentStatus
  s_profileImage :: "string option"
  s_bio :: "string option"
  s_educationLevel :: "string option"
  s_interests :: "string list option"
  s_totalCoursesCompleted :: "rat option"
  s_averageGrade :: "rat option"

text \<open>
  \<open>Partial<Student>\<close>, which also carries a \<open>StudentRegistration\<close> and the
  bodies built from it by object spread.
\<close>

record StudentPartial =
  su_id :: "int option"
  su_name :: "string option"
  su_email :: "string option"
  su_phone :: "string option"
  su_dateOfBirth :: "date_field option"
  su_address :: "Address option"
  su_enrolledCourses :: "int list option"
  su_createdAt :: "date_field option"
  su_updatedAt :: "date_field option"
  su_status :: "StudentStatus option"
  su_profileImage :: "string option"
  su_bio :: "string option"
  su_educationLevel :: "string option"
  su_interests :: "string list option"
  su_totalCoursesCompleted :: "rat option"
  su_averageGrade :: "rat option"


definition no_student_fields :: StudentPartial where
  "no_student_fields =
     \<lparr>su_id = None, su_name = None, su_email = None, su_phone = None, su_dateOfBirth = None,
      su_address = None, su_enrolledCourses = None, su_createdAt = None, su_updatedAt = None,
      su_status = None, su_profileImage = None, su_bio = None, su_educationLevel = None,
      su_interests = None, su_totalCoursesCompleted = None, su_averageGrade = None\<rparr>"

section \<open>Errors, the console and the HTTP client\<close>

text \<open>
  What an error handler receives: the failure of an HTTP call, or an \<open>Error\<close>
  thrown by a handler further down. \<open>error_message\<close> is the property \<open>message\<close>.
\<close>

datatype js_error = HttpErrorResponse "string option" | Error string

fun error_message :: "js_error \<Rightarrow> string option" where
  "error_message (HttpErrorResponse m) = m"
| "error_message (Error s) = Some s"

text \<open>\<open>error.message || 'Server error'\<close>.\<close>

definition message_or :: "string option \<Rightarrow> string \<Rightarrow> string" where
  "message_or m d = (case m of None \<Rightarrow> d | Some s \<Rightarrow> if s = [] then d else s)"

datatype console_entry = console_error string js_error

datatype http_method = GET | POST | PUT | PATCH | DELETE

text \<open>The three endpoints of \<open>environment.apiEndpoints\<close> that the services use.\<close>

datatype endpoint = courses | students | enrollments

datatype http_body =
    NoBody
  | CourseBody CoursePartial
  | StudentBody StudentPartial
  | EnrollmentBody EnrollmentPartial

text \<open>
  One request: the method, the endpoint, the identifier appended to the URL
  (\<open>`${apiUrl}/${id}`\<close>) if any, and the body.
\<close>

record http_call =
  http_method :: http_method
  http_endpoint :: endpoint
  http_id :: "int option"
  http_body :: http_body

text \<open>
  The state the services share: one cache per entity kind (the value of each
  \<open>BehaviorSubject\<close>), the console, and the requests issued so far.
\<close>

record world =
  coursesCache :: "Course list"
  studentsCache :: "Student list"
  enrollmentsCache :: "Enrollment list"
  console :: "console_entry list"
  requests :: "http_call list"

text \<open>
  An observable that emits once or fails. Subscribing to it runs it on the world.
  The response of the server to a request is an argument of the method that issues
  the request, so nothing is assumed about the server. The response is what the
  HTTP client hands to the service; what the interceptors of the client write to
  the console on the way is not part of the console of this model. An operation
  runs from its request to the delivery of the response in one step: the steps of
  two operations do not interleave.
\<close>

type_synonym 'a observable = "world \<Rightarrow> (js_error + 'a) \<times> world"

definition http_request :: "http_call \<Rightarrow> js_error + 'a \<Rightarrow> 'a observable" where
  "http_request call response = (\<lambda>w. (response, w\<lparr>requests := requests w @ [call]\<rparr>))"

definition rx_map :: "('a \<Rightarrow> 'b) \<Rightarrow> 'a observable \<Rightarrow> 'b observable" where
  "rx_map f source =
     (\<lambda>w. case source w of (Inl e, w') \<Rightarrow> (Inl e, w') | (Inr v, w') \<Rightarrow> (Inr (f v), w'))"

definition rx_tap :: "('a \<Rightarrow> world \<Rightarrow> world) \<Rightarrow> 'a observable \<Rightarrow> 'a observable" where
  "rx_tap f source =
     (\<lambda>w. case source w of (Inl e, w') \<Rightarrow> (Inl e, w') | (Inr v, w') \<Rightarrow> (Inr v, f v w'))"

definition catchError :: "(js_error \<Rightarrow> 'a observable) \<Rightarrow> 'a observable \<Rightarrow> 'a observable" where
  "catchError handler source =
     (\<lambda>w. case source w of (Inl e, w') \<Rightarrow> handler e w' | (Inr v, w') \<Rightarrow> (Inr v, w'))"

definition throwError :: "js_error \<Rightarrow> 'a observable" where
  "throwError e = (\<lambda>w. (Inl e, w))"


text \<open>\<open>source.subscribe({ next, error })\<close>.\<close>

definition subscribe ::
  "'a observable \<Rightarrow> ('a \<Rightarrow> world \<Rightarrow> world) \<Rightarrow> (js_error \<Rightarrow> world \<Rightarrow> world) \<Rightarrow> world \<Rightarrow> world" where
  "subscribe source on_next on_error =
     (\<lambda>w. case source w of (Inl e, w') \<Rightarrow> on_error e w' | (Inr v, w') \<Rightarrow> on_next v w')"

definition log_error :: "string \<Rightarrow> js_error \<Rightarrow> world \<Rightarrow> world" where
  "log_error label e w = w\<lparr>console := console w @ [console_error label e]\<rparr>"

text \<open>\<open>Array.prototype.findIndex\<close>: the first index that satisfies, or \<open>-1\<close>.\<close>

fun findIndex :: "('a \<Rightarrow> bool) \<Rightarrow> 'a list \<Rightarrow> int" where
  "findIndex P [] = -1"
| "findIndex P (x # xs) =
     (if P x then 0 else (let i = findIndex P xs in if i = -1 then -1 else i + 1))"

section \<open>The collection services\<close>

text \<open>
  The two conversions of the transform steps:
  \<open>typeof v === 'string' ? new Date(v) : v\<close> for a required date field, and
  \<open>v && typeof v === 'string' ? new Date(v) : v\<close> for an optional one.
\<close>

definition date_of_required :: "date_parser \<Rightarrow> date_field \<Rightarrow> date_field" where
  "date_of_required parse v =
     (if is_string (Some v) then DateObj (new_Date parse v) else v)"

definition date_of_optional :: "date_parser \<Rightarrow> date_field option \<Rightarrow> date_field option" where
  "date_of_optional parse v =
     (if truthy v \<and> is_string v then map_option (\<lambda>x. DateObj (new_Date parse x)) v else v)"

subsection \<open>CourseService\<close>

definition transformCourse :: "date_parser \<Rightarrow> Course \<Rightarrow> Course" where
  "transformCourse parse course =
     course\<lparr>c_createdAt := date_of_required parse (c_createdAt course),
            c_updatedAt := date_of_optional parse (c_updatedAt course)\<rparr>"

definition CourseService_handleError :: "js_error \<Rightarrow> 'a observable" where
  "CourseService_handleError error =
     (\<lambda>w. throwError (Error (message_or (error_message error) ''Server error''))
            (log_error ''CourseService Error:'' error w))"

definition getAllCourses :: "date_parser \<Rightarrow> js_error + Course list \<Rightarrow> Course list observable" where
  "getAllCourses parse response =
     catchError CourseService_handleError
       (rx_map (map (transformCourse parse))
         (http_request
           \<lparr>http_method = GET, http_endpoint = courses, http_id = None, http_body = NoBody\<rparr>
           response))"

definition loadAllCourses :: "date_parser \<Rightarrow> js_error + Course list \<Rightarrow> world \<Rightarrow> world" where
  "loadAllCourses parse response =
     subscribe (getAllCourses parse response)
       (\<lambda>cs w. w\<lparr>coursesCache := cs\<rparr>)
       (log_error ''Error loading courses:'')"

definition CourseService_refreshCache :: "date_parser \<Rightarrow> js_error + Course list \<Rightarrow> world \<Rightarrow> world" where
  "CourseService_refreshCache parse response = loadAllCourses parse response"

definition getCourseById :: "date_parser \<Rightarrow> int \<Rightarrow> js_error + Course \<Rightarrow> Course observable" where
  "getCourseById parse ident response =
     catchError CourseService_handleError
       (rx_map (transformCourse parse)
         (http_request
           \<lparr>http_method = GET, http_endpoint = courses, http_id = Some ident, http_body = NoBody\<rparr>
           response))"

definition createCourse ::
  "date_parser \<Rightarrow> clock \<Rightarrow> CoursePartial \<Rightarrow> js_error + Course \<Rightarrow> Course observable" where
  "createCourse parse clock course response =
     (let newCourse = course\<lparr>cu_createdAt := Some (DateStr (clock 0)),
                              cu_updatedAt := Some (DateStr (clock 1)),
                              cu_enrollmentCount := Some 0,
                              cu_popularity := Some 0\<rparr>
      in catchError CourseService_handleError
           (rx_map (transformCourse parse)
             (rx_tap (\<lambda>created w.
                        (let current = coursesCache w
                         in w\<lparr>coursesCache := current @ [transformCourse parse created]\<rparr>))
               (http_request
                 \<lparr>http_method = POST, http_endpoint = courses, http_id = None,
                  http_body = CourseBody newCourse\<rparr>
                 response))))"

text \<open>
  The cache step shared by \<open>updateCourse\<close> and \<open>patchCourse\<close>: the element at the
  first index with the identifier is replaced, and the array is published again;
  nothing is published when no element has the identifier.
\<close>

definition replace_course :: "date_parser \<Rightarrow> int \<Rightarrow> Course \<Rightarrow> world \<Rightarrow> world" where
  "replace_course parse ident updated w =
     (let current = coursesCache w;
          index = findIndex (\<lambda>c. c_id c = ident) current
      in if index \<noteq> -1
         then w\<lparr>coursesCache := current[nat index := transformCourse parse updated]\<rparr>
         else w)"

definition updateCourse ::
  "date_parser \<Rightarrow> clock \<Rightarrow> int \<Rightarrow> CoursePartial \<Rightarrow> js_error + Course \<Rightarrow> Course observable" where
  "updateCourse parse clock ident course response =
     (let updatedCourse = course\<lparr>cu_updatedAt := Some (DateStr (clock 0))\<rparr>
      in catchError CourseService_handleError
           (rx_map (transformCourse parse)
             (rx_tap (replace_course parse ident)
               (http_request
                 \<lparr>http_method = PUT, http_endpoint = courses, http_id = Some ident,
                  http_body = CourseBody updatedCourse\<rparr>
                 response))))"

definition patchCourse ::
  "date_parser \<Rightarrow> int \<Rightarrow> CoursePartial \<Rightarrow> js_error + Course \<Rightarrow> Course observable" where
  "patchCourse parse ident updates response =
     catchError CourseService_handleError
       (rx_map (transformCourse parse)
         (rx_tap (replace_course parse ident)
           (http_request
             \<lparr>http_method = PATCH, http_endpoint = courses, http_id = Some ident,
              http_body = CourseBody updates\<rparr>
             response)))"

definition deleteCourse :: "int \<Rightarrow> js_error + unit \<Rightarrow> unit observable" where
  "deleteCourse ident response =
     catchError CourseService_handleError
       (rx_tap (\<lambda>_ w.
                  (let current = coursesCache w
                   in w\<lparr>coursesCache := filter (\<lambda>c. c_id c \<noteq> ident) current\<rparr>))
         (http_request
           \<lparr>http_method = DELETE, http_endpoint = courses, http_id = Some ident,
            http_body = NoBody\<rparr>
           response))"

subsection \<open>StudentService\<close>

definition transformStudent :: "date_parser \<Rightarrow> Student \<Rightarrow> Student" where
  "transformStudent parse student =
     student\<lparr>s_createdAt := date_of_required parse (s_createdAt student),
             s_updatedAt := date_of_optional parse (s_updatedAt student),
             s_dateOfBirth := date_of_optional parse (s_dateOfBirth student)\<rparr>"

definition StudentService_handleError :: "js_error \<Rightarrow> 'a observable" where
  "StudentService_handleError error =
     (\<lambda>w. throwError (Error (message_or (error_message error) ''Server error''))
            (log_error ''StudentService Error:'' error w))"

definition getAllStudents :: "date_parser \<Rightarrow> js_error + Student list \<Rightarrow> Student list observable" where
  "getAllStudents parse response =
     catchError StudentService_handleError
       (rx_map (map (transformStudent parse))
         (http_request
           \<lparr>http_method = GET, http_endpoint = students, http_id = None, http_body = NoBody\<rparr>
           response))"

definition loadAllStudents :: "date_parser \<Rightarrow> js_error + Student list \<Rightarrow> world \<Rightarrow> world" where
  "loadAllStudents parse response =
     subscribe (getAllStudents parse response)
       (\<lambda>ss w. w\<lparr>studentsCache := ss\<rparr>)
       (log_error ''Error loading students:'')"

definition StudentService_refreshCache :: "date_parser \<Rightarrow> js_error + Student list \<Rightarrow> world \<Rightarrow> world" where
  "StudentService_refreshCache parse response = loadAllStudents parse response"

definition getStudentById :: "date_parser \<Rightarrow> int \<Rightarrow> js_error + Student \<Rightarrow> Student observable" where
  "getStudentById parse ident response =
     catchError StudentService_handleError
       (rx_map (transformStudent parse)
         (http_request
           \<lparr>http_method = GET, http_endpoint = students, http_id = Some ident, http_body = NoBody\<rparr>
           response))"

definition createStudent ::
  "date_parser \<Rightarrow> clock \<Rightarrow> StudentPartial \<Rightarrow> js_error + Student \<Rightarrow> Student observable" where
  "createStudent parse clock registration response =
     (let newStudent = registration\<lparr>su_enrolledCourses := Some [],
                                     su_createdAt := Some (DateStr (clock 0)),
                                     su_updatedAt := Some (DateStr (clock 1)),
                                     su_status := Some ACTIVE,
                                     su_totalCoursesCompleted := Some 0,
                                     su_averageGrade := Some 0\<rparr>
      in catchError StudentService_handleError
           (rx_map (transformStudent parse)
             (rx_tap (\<lambda>created w.
                        (let current = studentsCache w
                         in w\<lparr>studentsCache := current @ [transformStudent parse created]\<rparr>))
               (http_request
                 \<lparr>http_method = POST, http_endpoint = students, http_id = None,
                  http_body = StudentBody newStudent\<rparr>
                 response))))"

definition replace_student :: "date_parser \<Rightarrow> int \<Rightarrow> Student \<Rightarrow> world \<Rightarrow> world" where
  "replace_student parse ident updated w =
     (let current = studentsCache w;
          index = findIndex (\<lambda>s. s_id s = ident) current
      in if index \<noteq> -1
         then w\<lparr>studentsCache := current[nat index := transformStudent parse updated]\<rparr>
         else w)"

definition updateStudent ::
  "date_parser \<Rightarrow> clock \<Rightarrow> int \<Rightarrow> StudentPartial \<Rightarrow> js_error + Student \<Rightarrow> Student observable" where
  "updateStudent parse clock ident student response =
     (let updatedStudent = student\<lparr>su_updatedAt := Some (DateStr (clock 0))\<rparr>
      in catchError StudentService_handleError
           (rx_map (transformStudent parse)
             (rx_tap (replace_student parse ident)
               (http_request
                 \<lparr>http_method = PUT, http_endpoint = students, http_id = Some ident,
                  http_body = StudentBody updatedStudent\<rparr>
                 response))))"

definition patchStudent ::
  "date_parser \<Rightarrow> int \<Rightarrow> StudentPartial \<Rightarrow> js_error + Student \<Rightarrow> Student observable" where
  "patchStudent parse ident updates response =
     catchError StudentService_handleError
       (rx_map (transformStudent parse)
         (rx_tap (replace_student parse ident)
           (http_request
             \<lparr>http_method = PATCH, http_endpoint = students, http_id = Some ident,
              http_body = StudentBody updates\<rparr>
             response)))"

definition deleteStudent :: "int \<Rightarrow> js_error + unit \<Rightarrow> unit observable" where
  "deleteStudent ident response =
     catchError StudentService_handleError
       (rx_tap (\<lambda>_ w.
                  (let current = studentsCache w
                   in w\<lparr>studentsCache := filter (\<lambda>s. s_id s \<noteq> ident) current\<rparr>))
         (http_request
           \<lparr>http_method = DELETE, http_endpoint = students, http_id = Some ident,
            http_body = NoBody\<rparr>
           response))"


subsection \<open>EnrollmentService\<close>

definition transformEnrollment :: "date_parser \<Rightarrow> Enrollment \<Rightarrow> Enrollment" where
  "transformEnrollment parse enrollment =
     enrollment\<lparr>e_enrollmentDate := date_of_required parse (e_enrollmentDate enrollment),
                e_completionDate := date_of_optional parse (e_completionDate enrollment),
                e_lastAccessedDate := date_of_optional parse (e_lastAccessedDate enrollment)\<rparr>"

definition EnrollmentService_handleError :: "js_error \<Rightarrow> 'a observable" where
  "EnrollmentService_handleError error =
     (\<lambda>w. throwError (Error (message_or (error_message error) ''Server error''))
            (log_error ''EnrollmentService Error:'' error w))"

definition getAllEnrollments ::
  "date_parser \<Rightarrow> js_error + Enrollment list \<Rightarrow> Enrollment list observable" where
  "getAllEnrollments parse response =
     catchError EnrollmentService_handleError
       (rx_map (map (transformEnrollment parse))
         (http_request
           \<lparr>http_method = GET, http_endpoint = enrollments, http_id = None, http_body = NoBody\<rparr>
           response))"

definition loadAllEnrollments :: "date_parser \<Rightarrow> js_error + Enrollment list \<Rightarrow> world \<Rightarrow> world" where
  "loadAllEnrollments parse response =
     subscribe (getAllEnrollments parse response)
       (\<lambda>es w. w\<lparr>enrollmentsCache := es\<rparr>)
       (log_error ''Error loading enrollments:'')"

definition EnrollmentService_refreshCache ::
  "date_parser \<Rightarrow> js_error + Enrollment list \<Rightarrow> world \<Rightarrow> world" where
  "EnrollmentService_refreshCache parse response = loadAllEnrollments parse response"

definition getEnrollmentById ::
  "date_parser \<Rightarrow> int \<Rightarrow> js_error + Enrollment \<Rightarrow> Enrollment observable" where
  "getEnrollmentById parse ident response =
     catchError EnrollmentService_handleError
       (rx_map (transformEnrollment parse)
         (http_request
           \<lparr>http_method = GET, http_endpoint = enrollments, http_id = Some ident,
            http_body = NoBody\<rparr>
           response))"

text \<open>
  \<open>createEnrollment\<close> issues the POST and, on success, appends to the enrollment
  cache and refreshes the caches of the two other services; \<open>courses_response\<close> and
  \<open>students_response\<close> are the answers to those two refresh requests. The refreshes
  are run here one after the other, inside the step that started them.
\<close>

definition createEnrollment ::
  "date_parser \<Rightarrow> clock \<Rightarrow> EnrollmentRequest \<Rightarrow> js_error + Enrollment \<Rightarrow>
   js_error + Course list \<Rightarrow> js_error + Student list \<Rightarrow> Enrollment observable" where
  "createEnrollment parse clock request response courses_response students_response =
     (let newEnrollment =
            no_updates\<lparr>u_courseId := Some (r_courseId request),
                       u_studentId := Some (r_studentId request),
                       u_enrollmentDate :=
                         (if truthy (r_enrollmentDate request) then r_enrollmentDate request
                          else Some (DateStr (clock 0))),
                       u_status := Some ENROLLED,
                       u_progress := Some 0\<rparr>
      in catchError EnrollmentService_handleError
           (rx_map (transformEnrollment parse)
             (rx_tap (\<lambda>created w.
                        (let current = enrollmentsCache w;
                             w1 = w\<lparr>enrollmentsCache :=
                                      current @ [transformEnrollment parse created]\<rparr>;
                             w2 = CourseService_refreshCache parse courses_response w1
                         in StudentService_refreshCache parse students_response w2))
               (http_request
                 \<lparr>http_method = POST, http_endpoint = enrollments, http_id = None,
                  http_body = EnrollmentBody newEnrollment\<rparr>
                 response))))"

definition replace_enrollment :: "date_parser \<Rightarrow> int \<Rightarrow> Enrollment \<Rightarrow> world \<Rightarrow> world" where
  "replace_enrollment parse ident updated w =
     (let current = enrollmentsCache w;
          index = findIndex (\<lambda>e. e_id e = ident) current
      in if index \<noteq> -1
         then w\<lparr>enrollmentsCache := current[nat index := transformEnrollment parse updated]\<rparr>
         else w)"

definition updateEnrollment ::
  "date_parser \<Rightarrow> int \<Rightarrow> EnrollmentPartial \<Rightarrow> js_error + Enrollment \<Rightarrow> Enrollment observable" where
  "updateEnrollment parse ident enrollment response =
     catchError EnrollmentService_handleError
       (rx_map (transformEnrollment parse)
         (rx_tap (replace_enrollment parse ident)
           (http_request
             \<lparr>http_method = PUT, http_endpoint = enrollments, http_id = Some ident,
              http_body = EnrollmentBody enrollment\<rparr>
             response)))"

definition patchEnrollment ::
  "date_parser \<Rightarrow> int \<Rightarrow> EnrollmentPartial \<Rightarrow> js_error + Enrollment \<Rightarrow> Enrollment observable" where
  "patchEnrollment parse ident updates response =
     catchError EnrollmentService_handleError
       (rx_map (transformEnrollment parse)
         (rx_tap (replace_enrollment parse ident)
           (http_request
             \<lparr>http_method = PATCH, http_endpoint = enrollments, http_id = Some ident,
              http_body = EnrollmentBody updates\<rparr>
             response)))"

definition deleteEnrollment ::
  "date_parser \<Rightarrow> int \<Rightarrow> js_error + unit \<Rightarrow>
   js_error + Course list \<Rightarrow> js_error + Student list \<Rightarrow> unit observable" where
  "deleteEnrollment parse ident response courses_response students_response =
     catchError EnrollmentService_handleError
       (rx_tap (\<lambda>_ w.
                  (let current = enrollmentsCache w;
                       w1 = w\<lparr>enrollmentsCache := filter (\<lambda>e. e_id e \<noteq> ident) current\<rparr>;
                       w2 = CourseService_refreshCache parse courses_response w1
                   in StudentService_refreshCache parse students_response w2))
         (http_request
           \<lparr>http_method = DELETE, http_endpoint = enrollments, http_id = Some ident,
            http_body = NoBody\<rparr>
           response))"

definition updateProgress ::
  "date_parser \<Rightarrow> clock \<Rightarrow> int \<Rightarrow> rat \<Rightarrow> js_error + Enrollment \<Rightarrow> Enrollment observable" where
  "updateProgress parse clock enrollmentId progress response =
     (let updates = no_updates\<lparr>u_progress := Some progress,
                               u_lastAccessedDate := Some (DateStr (clock 0))\<rparr>;
          updates =
            (if progress = 100
             then updates\<lparr>u_status := Some COMPLETED,
                          u_completionDate := Some (DateStr (clock 1))\<rparr>
             else if progress > 0
             then updates\<lparr>u_status := Some IN_PROGRESS\<rparr>
             else updates)
      in patchEnrollment parse enrollmentId updates response)"

definition updateStatus ::
  "date_parser \<Rightarrow> clock \<Rightarrow> int \<Rightarrow> EnrollmentStatus \<Rightarrow> js_error + Enrollment \<Rightarrow>
   Enrollment observable" where
  "updateStatus parse clock enrollmentId status response =
     (let updates = no_updates\<lparr>u_status := Some status\<rparr>;
          updates =
            (if status = COMPLETED
             then updates\<lparr>u_completionDate := Some (DateStr (clock 0)),
                          u_progress := Some 100\<rparr>
             else updates)
      in patchEnrollment parse enrollmentId updates response)"

definition submitGrade ::
  "date_parser \<Rightarrow> int \<Rightarrow> rat \<Rightarrow> js_error + Enrollment \<Rightarrow> Enrollment observable" where
  "submitGrade parse enrollmentId grade response =
     patchEnrollment parse enrollmentId
       (no_updates\<lparr>u_grade := Some grade, u_certificateIssued := Some (grade \<ge> 70)\<rparr>)
       response"

text \<open>The function that \<open>getEnrollmentStats\<close> maps over the fetched enrollments.\<close>

definition enrollment_stats :: "Enrollment list \<Rightarrow> EnrollmentStats" where
  "enrollment_stats es =
     (let total = length es;
          active = length (filter (\<lambda>e. e_status e = ENROLLED \<or> e_status e = IN_PROGRESS) es);
          completed = length (filter (\<lambda>e. e_status e = COMPLETED) es);
          dropped = length (filter (\<lambda>e. e_status e = DROPPED) es);
          totalProgress = foldl (\<lambda>sum e. sum + or_zero (e_progress e)) 0 es;
          avgProgress = (if total > 0 then totalProgress / of_nat total else 0);
          gradedEnrollments = filter (\<lambda>e. e_grade e \<noteq> None) es;
          totalGrade = foldl (\<lambda>sum e. sum + opt_or_zero (e_grade e)) 0 gradedEnrollments;
          avgGrade = (if length gradedEnrollments > 0
                      then totalGrade / of_nat (length gradedEnrollments) else 0);
          rate = (if total > 0 then (of_nat completed / of_nat total) * 100 else 0)
      in \<lparr>totalEnrollments = total,
          activeEnrollments = active,
          completedEnrollments = completed,
          droppedEnrollments = dropped,
          averageProgress = round2 avgProgress,
          averageGrade = round2 avgGrade,
          completionRate = round2 rate\<rparr>)"

definition getEnrollmentStats ::
  "date_parser \<Rightarrow> js_error + Enrollment list \<Rightarrow> EnrollmentStats observable" where
  "getEnrollmentStats parse response =
     catchError EnrollmentService_handleError
       (rx_map enrollment_stats (getAllEnrollments parse response))"

subsection \<open>FeedbackService\<close>


section \<open>The enrollment form\<close>

text \<open>
  The part of \<open>EnrollmentFormComponent\<close> that the duplicate check reads and writes:
  the values of the two selection controls (the initial \<open>''\<close> is \<open>None\<close>), the
  errors set on the form group (\<open>null\<close> is \<open>None\<close>), and the messages shown.
\<close>

datatype validation_errors = duplicate

record EnrollmentFormComponent =
  form_courseId :: "int option"
  form_studentId :: "int option"
  form_errors :: "validation_errors option"
  snackBar :: "(string \<times> string) list"

text \<open>Truthiness of a control value: \<open>''\<close> and \<open>0\<close> are falsy.\<close>

fun selected :: "int option \<Rightarrow> bool" where
  "selected None = False"
| "selected (Some n) = (n \<noteq> 0)"

definition showMessage :: "string \<Rightarrow> string \<Rightarrow> EnrollmentFormComponent \<Rightarrow> EnrollmentFormComponent" where
  "showMessage message type this = this\<lparr>snackBar := snackBar this @ [(message, type)]\<rparr>"

text \<open>
  \<open>validateDuplicateEnrollment\<close> subscribes to \<open>getAllEnrollments\<close> with a \<open>next\<close>
  callback only: when the fetch fails the component is left as it is.
\<close>

definition validateDuplicateEnrollment ::
  "date_parser \<Rightarrow> js_error + Enrollment list \<Rightarrow> EnrollmentFormComponent \<times> world \<Rightarrow>
   EnrollmentFormComponent \<times> world" where
  "validateDuplicateEnrollment parse response =
     (\<lambda>(this, w).
        (let courseId = form_courseId this;
             studentId = form_studentId this
         in if selected courseId \<and> selected studentId
            then (case getAllEnrollments parse response w of
                    (Inr es, w') \<Rightarrow>
                      (let found = find (\<lambda>e. Some (e_courseId e) = courseId \<and>
                                               Some (e_studentId e) = studentId \<and>
                                               (e_status e = IN_PROGRESS \<or> e_status e = PENDING))
                                        es
                       in (case found of
                             Some e \<Rightarrow>
                               (showMessage ''This student is already enrolled in this course''
                                  ''error'' (this\<lparr>form_errors := Some duplicate\<rparr>), w')
                           | None \<Rightarrow> (this\<lparr>form_errors := None\<rparr>, w')))
                  | (Inl e, w') \<Rightarrow> (this, w'))
            else (this, w)))"

text \<open>
  The notion of an active enrollment that \<open>getEnrollmentStats\<close> counts with
  (the predicate of its \<open>active\<close> filter).
\<close>

definition is_active :: "Enrollment \<Rightarrow> bool" where
  "is_active e = (e_status e = ENROLLED \<or> e_status e = IN_PROGRESS)"

section \<open>The dashboard\<close>

subsection \<open>The percentage helpers of DashboardComponent\<close>




subsection \<open>DashboardService\<close>

record CategoryStats =
  cs_category :: string
  cs_courseCount :: nat
  cs_enrollmentCount :: nat
  cs_revenue :: rat


text \<open>
  A \<open>Map<string, CategoryStats>\<close> is an association list in insertion order.
  \<open>Map_set\<close> replaces the value of a key in place, or adds the key at the end.
\<close>

type_synonym category_map = "(string \<times> CategoryStats) list"

definition Map_has :: "category_map \<Rightarrow> string \<Rightarrow> bool" where
  "Map_has m k = (map_of m k \<noteq> None)"

fun Map_set :: "string \<Rightarrow> CategoryStats \<Rightarrow> category_map \<Rightarrow> category_map" where
  "Map_set k v [] = [(k, v)]"
| "Map_set k v (p # ps) = (if fst p = k then (k, v) # ps else p # Map_set k v ps)"

text \<open>
  The body of \<open>courses.forEach\<close> in \<open>calculateCategoryDistribution\<close>. The statistics
  object of the category is looked up after it was added if missing, so the lookup
  finds it; the object is then updated in place.
\<close>

definition category_step :: "Enrollment list \<Rightarrow> category_map \<Rightarrow> Course \<Rightarrow> category_map" where
  "category_step es categoryMap course =
     (let category = c_category course;
          categoryMap1 =
            (if \<not> Map_has categoryMap category
             then Map_set category
                    \<lparr>cs_category = category, cs_courseCount = 0, cs_enrollmentCount = 0,
                     cs_revenue = 0\<rparr> categoryMap
             else categoryMap)
      in (case map_of categoryMap1 category of
            None \<Rightarrow> categoryMap1
          | Some stats \<Rightarrow>
              (let stats1 = stats\<lparr>cs_courseCount := cs_courseCount stats + 1\<rparr>;
                   courseEnrollments = filter (\<lambda>e. e_courseId e = c_id course) es;
                   stats2 = stats1\<lparr>cs_enrollmentCount :=
                                      cs_enrollmentCount stats1 + length courseEnrollments\<rparr>;
                   stats3 = stats2\<lparr>cs_revenue :=
                                      cs_revenue stats2 +
                                      of_nat (length courseEnrollments) * c_price course\<rparr>
               in Map_set category stats3 categoryMap1)))"

text \<open>
  \<open>sort((a, b) => b.enrollmentCount - a.enrollmentCount)\<close>: a stable sort, the
  larger count first.
\<close>

definition sort_by_enrollmentCount_desc :: "CategoryStats list \<Rightarrow> CategoryStats list" where
  "sort_by_enrollmentCount_desc xs = sort_key (\<lambda>s. - int (cs_enrollmentCount s)) xs"

definition calculateCategoryDistribution :: "Course list \<Rightarrow> Enrollment list \<Rightarrow> CategoryStats list" where
  "calculateCategoryDistribution cs es =
     (let categoryMap = foldl (category_step es) [] cs
      in map (\<lambda>stat. stat\<lparr>cs_revenue := round2 (cs_revenue stat)\<rparr>)
           (sort_by_enrollmentCount_desc (map snd categoryMap)))"





record EnrollmentWithDetails = Enrollment +
  courseName :: "string option"
  courseCategory :: "string option"
  studentName :: "string option"
  studentEmail :: "string option"

















section \<open>Reference definitions for the properties\<close>

text \<open>
  The world when the application starts: every \<open>BehaviorSubject\<close> is created with
  the empty array, nothing is logged and nothing was requested.
\<close>

definition initial_world :: world where
  "initial_world =
     \<lparr>coursesCache = [], studentsCache = [], enrollmentsCache = [], console = [],
      requests = []\<rparr>"


text \<open>The PATCH request for an enrollment, with the given body.\<close>

definition enrollment_patch :: "int \<Rightarrow> EnrollmentPartial \<Rightarrow> http_call" where
  "enrollment_patch ident u =
     \<lparr>http_method = PATCH, http_endpoint = enrollments, http_id = Some ident,
      http_body = EnrollmentBody u\<rparr>"

text \<open>
  Sample data for the concrete instances: an enrollment with the given identifier,
  course, student and status and a progress of 0, a course with the given
  identifier, category and price, and a student with the given identifier.
\<close>

definition sample_enrollment :: "int \<Rightarrow> int \<Rightarrow> int \<Rightarrow> EnrollmentStatus \<Rightarrow> Enrollment" where
  "sample_enrollment i c s st =
     \<lparr>e_id = i, e_courseId = c, e_studentId = s, e_enrollmentDate = DateStr ''2024-03-10'',
      e_completionDate = None, e_status = st, e_progress = 0, e_grade = None,
      e_certificateIssued = None, e_lastAccessedDate = None, e_totalHoursSpent = None,
      e_completedModules = None, e_totalModules = None, e_feedback = None,
      e_rating = None\<rparr>"

definition sample_course :: "int \<Rightarrow> string \<Rightarrow> rat \<Rightarrow> Course" where
  "sample_course i cat p =
     \<lparr>c_id = i, c_title = ''Course'', c_description = ''Description'', c_category = cat,
      c_level = ''Beginner'', c_duration = 10, c_price = p, c_instructor = ''Instructor'',
      c_thumbnail = None, c_createdAt = DateStr ''2024-01-05'', c_updatedAt = None,
      c_popularity = 0, c_enrollmentCount = 0, c_isActive = True, c_tags = None,
      c_prerequisites = None, c_learningOutcomes = None, c_maxStudents = None\<rparr>"

definition sample_student :: "int \<Rightarrow> Student" where
  "sample_student i =
     \<lparr>s_id = i, s_name = ''Student'', s_email = ''student@example.com'', s_phone = None,
      s_dateOfBirth = None, s_address = None, s_enrolledCourses = [],
      s_createdAt = DateStr ''2024-02-01'', s_updatedAt = None, s_status = ACTIVE,
      s_profileImage = None, s_bio = None, s_educationLevel = None, s_interests = None,
      s_totalCoursesCompleted = None, s_averageGrade = None\<rparr>"













text \<open>
  A sample host for the concrete instances, in the time zone UTC.
  \<open>days_from_civil\<close> is the number of days from 1970-01-01 to a date of the
  proleptic Gregorian calendar; the constructor normalises a month index outside
  0..11 into the neighbouring years; the parser reads \<open>YYYY-MM-DD\<close>.
\<close>

definition days_from_civil :: "int \<Rightarrow> int \<Rightarrow> int \<Rightarrow> int" where
  "days_from_civil y m d =
     (let y1 = (if m \<le> 2 then y - 1 else y);
          era = y1 div 400;
          yoe = y1 - era * 400;
          doy = (153 * (if m > 2 then m - 3 else m + 9) + 2) div 5 + d - 1;
          doe = yoe * 365 + yoe div 4 - yoe div 100 + doy
      in era * 146097 + doe - 719468)"


definition digit :: "char \<Rightarrow> int" where
  "digit c = int (of_char c) - 48"

fun parse_ymd :: date_parser where
  "parse_ymd [y1, y2, y3, y4, s1, m1, m2, s2, d1, d2] =
     (if s1 = CHR ''-'' \<and> s2 = CHR ''-''
      then Some (days_from_civil
                   (1000 * digit y1 + 100 * digit y2 + 10 * digit y3 + digit y4)
                   (10 * digit m1 + digit m2) (10 * digit d1 + digit d2) * 86400000)
      else None)"
| "parse_ymd s = None"


text \<open>
  The conversion of a date field as the transform steps perform it: a string
  becomes a \<open>Date\<close> made from it and a \<open>Date\<close> stays as it is; in an optional field
  an absent value stays absent and the empty string stays the empty string.
\<close>

fun converted :: "date_parser \<Rightarrow> date_field \<Rightarrow> date_field" where
  "converted parse (DateStr s) = DateObj (Date (parse s))"
| "converted parse (DateObj d) = DateObj d"

fun converted_optional :: "date_parser \<Rightarrow> date_field option \<Rightarrow> date_field option" where
  "converted_optional parse None = None"
| "converted_optional parse (Some (DateStr s)) =
     (if s = [] then Some (DateStr s) else Some (DateObj (Date (parse s))))"
| "converted_optional parse (Some (DateObj d)) = Some (DateObj d)"


section \<open>Verified properties\<close>

subsection \<open>Running a request pipeline\<close>

lemma run_http_fail:
  "catchError h (rx_map f (rx_tap t (http_request call (Inl e)))) w =
   h e (w\<lparr>requests := requests w @ [call]\<rparr>)"
  by (simp add: catchError_def rx_map_def rx_tap_def http_request_def)

lemma run_http_ok:
  "catchError h (rx_map f (rx_tap t (http_request call (Inr v)))) w =
   (Inr (f v), t v (w\<lparr>requests := requests w @ [call]\<rparr>))"
  by (simp add: catchError_def rx_map_def rx_tap_def http_request_def)

lemma requests_EnrollmentService_handleError:
  "requests (snd (EnrollmentService_handleError e w)) = requests w"
  by (simp add: EnrollmentService_handleError_def throwError_def log_error_def)

lemma requests_replace_enrollment:
  "requests (replace_enrollment parse i v w) = requests w"
  by (simp add: replace_enrollment_def Let_def)

lemma requests_patchEnrollment:
  "requests (snd (patchEnrollment parse i u response w)) =
   requests w @ [enrollment_patch i u]"
  by (cases response)
    (simp_all add: patchEnrollment_def run_http_fail run_http_ok enrollment_patch_def
       requests_EnrollmentService_handleError requests_replace_enrollment)

subsection \<open>The percentage helpers of the dashboard\<close>




subsection \<open>Patches issued by the enrollment service\<close>

text \<open>
  Claim C10. For every enrollment identifier and grade, \<open>submitGrade\<close> issues
  exactly one request, a PATCH of that enrollment, whose body holds the grade and a
  \<open>certificateIssued\<close> flag that is true exactly when the grade is at least 70, and
  no other field. This holds whatever the server answers.
\<close>

theorem submitGrade_patch:
  "requests (snd (submitGrade parse enrollmentId grade response w)) =
     requests w @
       [enrollment_patch enrollmentId
           \<lparr>u_id = None, u_courseId = None, u_studentId = None, u_enrollmentDate = None,
            u_completionDate = None, u_status = None, u_progress = None,
            u_grade = Some grade, u_certificateIssued = Some (grade \<ge> 70),
            u_lastAccessedDate = None, u_totalHoursSpent = None,
            u_completedModules = None, u_totalModules = None, u_feedback = None,
            u_rating = None\<rparr>]"
  by (simp add: submitGrade_def requests_patchEnrollment no_updates_def)

theorem submitGrade_patch_witness:
  "map http_body (requests (snd (submitGrade (\<lambda>s. None) 3 70 (Inl (HttpErrorResponse None))
      initial_world))) =
     [EnrollmentBody (no_updates\<lparr>u_grade := Some 70, u_certificateIssued := Some True\<rparr>)] \<and>
   map http_body (requests (snd (submitGrade (\<lambda>s. None) 3 (139 / 2)
      (Inl (HttpErrorResponse None)) initial_world))) =
     [EnrollmentBody (no_updates\<lparr>u_grade := Some (139 / 2), u_certificateIssued := Some False\<rparr>)]"
  using submitGrade_patch [of "\<lambda>s. None" 3 70 "Inl (HttpErrorResponse None)" initial_world]
    submitGrade_patch [of "\<lambda>s. None" 3 "139 / 2" "Inl (HttpErrorResponse None)" initial_world]
  by (simp add: initial_world_def enrollment_patch_def no_updates_def)

lemma updateProgress_requests:
  "requests (snd (updateProgress parse clock enrollmentId progress response w)) =
     requests w @
       [enrollment_patch enrollmentId
          (if progress = 100
           then no_updates\<lparr>u_progress := Some progress,
                            u_lastAccessedDate := Some (DateStr (clock 0)),
                            u_status := Some COMPLETED,
                            u_completionDate := Some (DateStr (clock 1))\<rparr>
           else if progress > 0
           then no_updates\<lparr>u_progress := Some progress,
                            u_lastAccessedDate := Some (DateStr (clock 0)),
                            u_status := Some IN_PROGRESS\<rparr>
           else no_updates\<lparr>u_progress := Some progress,
                            u_lastAccessedDate := Some (DateStr (clock 0))\<rparr>)]"
  by (simp add: updateProgress_def requests_patchEnrollment Let_def)

lemma updateStatus_requests:
  "requests (snd (updateStatus parse clock enrollmentId status response w)) =
     requests w @
       [enrollment_patch enrollmentId
          (if status = COMPLETED
           then no_updates\<lparr>u_status := Some status,
                            u_completionDate := Some (DateStr (clock 0)),
                            u_progress := Some 100\<rparr>
           else no_updates\<lparr>u_status := Some status\<rparr>)]"
  by (simp add: updateStatus_def requests_patchEnrollment Let_def)

text \<open>
  Claim C9. For every enrollment identifier and progress value, \<open>updateProgress\<close>
  issues one PATCH of that enrollment whose body sets the progress and the date of
  last access; at progress 100 the body also sets the status \<open>Completed\<close> and a
  completion date, at a progress strictly between 0 and 100 it sets the status
  \<open>In Progress\<close>, and at progress 0 it has no status. \<open>updateStatus\<close> issues one
  PATCH whose body sets the status; for the status \<open>Completed\<close> it also sets the
  progress to 100 and a completion date, and for any other status the body holds
  the status only.
\<close>

theorem updateProgress_patch:
  "(\<exists>u. requests (snd (updateProgress parse clock enrollmentId progress response w)) =
          requests w @ [enrollment_patch enrollmentId u] \<and>
        u_progress u = Some progress \<and>
        u_lastAccessedDate u = Some (DateStr (clock 0)) \<and>
        (progress = 100 \<longrightarrow>
           u_status u = Some COMPLETED \<and> u_completionDate u = Some (DateStr (clock 1))) \<and>
        (0 < progress \<and> progress < 100 \<longrightarrow> u_status u = Some IN_PROGRESS) \<and>
        (progress = 0 \<longrightarrow> u_status u = None)) \<and>
   (\<exists>u. requests (snd (updateStatus parse clock enrollmentId status response w)) =
          requests w @ [enrollment_patch enrollmentId u] \<and>
        u_status u = Some status \<and>
        (status = COMPLETED \<longrightarrow>
           u_progress u = Some 100 \<and> u_completionDate u = Some (DateStr (clock 0))) \<and>
        (status \<noteq> COMPLETED \<longrightarrow> u = no_updates\<lparr>u_status := Some status\<rparr>))"
proof (rule conjI)
  show "\<exists>u. requests (snd (updateProgress parse clock enrollmentId progress response w)) =
          requests w @ [enrollment_patch enrollmentId u] \<and>
        u_progress u = Some progress \<and>
        u_lastAccessedDate u = Some (DateStr (clock 0)) \<and>
        (progress = 100 \<longrightarrow>
           u_status u = Some COMPLETED \<and> u_completionDate u = Some (DateStr (clock 1))) \<and>
        (0 < progress \<and> progress < 100 \<longrightarrow> u_status u = Some IN_PROGRESS) \<and>
        (progress = 0 \<longrightarrow> u_status u = None)"
    by (rule exI, rule conjI, rule updateProgress_requests) (simp add: no_updates_def)
  show "\<exists>u. requests (snd (updateStatus parse clock enrollmentId status response w)) =
          requests w @ [enrollment_patch enrollmentId u] \<and>
        u_status u = Some status \<and>
        (status = COMPLETED \<longrightarrow>
           u_progress u = Some 100 \<and> u_completionDate u = Some (DateStr (clock 0))) \<and>
        (status \<noteq> COMPLETED \<longrightarrow> u = no_updates\<lparr>u_status := Some status\<rparr>)"
    by (rule exI, rule conjI, rule updateStatus_requests) (simp add: no_updates_def)
qed

theorem updateProgress_patch_witness:
  "(\<exists>u. requests (snd (updateProgress (\<lambda>s. None) (\<lambda>k. ''2024-01-01T00:00:00.000Z'') 3 100
            (Inl (HttpErrorResponse None)) initial_world)) = [enrollment_patch 3 u] \<and>
        u_status u = Some COMPLETED) \<and>
   (\<exists>u. requests (snd (updateProgress (\<lambda>s. None) (\<lambda>k. ''2024-01-01T00:00:00.000Z'') 3 40
            (Inl (HttpErrorResponse None)) initial_world)) = [enrollment_patch 3 u] \<and>
        u_status u = Some IN_PROGRESS) \<and>
   (\<exists>u. requests (snd (updateProgress (\<lambda>s. None) (\<lambda>k. ''2024-01-01T00:00:00.000Z'') 3 0
            (Inl (HttpErrorResponse None)) initial_world)) = [enrollment_patch 3 u] \<and>
        u_status u = None) \<and>
   (\<exists>u. requests (snd (updateStatus (\<lambda>s. None) (\<lambda>k. ''2024-01-01T00:00:00.000Z'') 3 COMPLETED
            (Inl (HttpErrorResponse None)) initial_world)) = [enrollment_patch 3 u] \<and>
        u_progress u = Some 100) \<and>
   (\<exists>u. requests (snd (updateStatus (\<lambda>s. None) (\<lambda>k. ''2024-01-01T00:00:00.000Z'') 3 DROPPED
            (Inl (HttpErrorResponse None)) initial_world)) = [enrollment_patch 3 u] \<and>
        u = no_updates\<lparr>u_status := Some DROPPED\<rparr>)"
  using
    updateProgress_patch [of "\<lambda>s. None" "\<lambda>k. ''2024-01-01T00:00:00.000Z''" 3 100
      "Inl (HttpErrorResponse None)" initial_world COMPLETED]
    updateProgress_patch [of "\<lambda>s. None" "\<lambda>k. ''2024-01-01T00:00:00.000Z''" 3 40
      "Inl (HttpErrorResponse None)" initial_world DROPPED]
    updateProgress_patch [of "\<lambda>s. None" "\<lambda>k. ''2024-01-01T00:00:00.000Z''" 3 0
      "Inl (HttpErrorResponse None)" initial_world DROPPED]
  by (auto simp add: initial_world_def)

subsection \<open>Enrollment statistics\<close>

















text \<open>
  An instance with three enrollments, one of them completed and two of them graded.
\<close>

lemma enrollment_stats_example:
  "enrollment_stats
     [(sample_enrollment 1 1 1 COMPLETED)\<lparr>e_progress := 100, e_grade := Some 85\<rparr>,
      sample_enrollment 2 1 2 ENROLLED,
      (sample_enrollment 3 2 2 IN_PROGRESS)\<lparr>e_progress := 45, e_grade := Some (181 / 2)\<rparr>] =
   \<lparr>totalEnrollments = 3, activeEnrollments = 2, completedEnrollments = 1,
    droppedEnrollments = 0, averageProgress = 4833 / 100, averageGrade = 351 / 4,
    completionRate = 3333 / 100\<rparr>"
  by code_simp

text \<open>
  \<open>round2\<close> is a rounding to two decimal places: its result is a multiple of 1/100
  and differs from the argument by at most half of 1/100.
\<close>

lemma round2_grid: "\<exists>k::int. round2 x * 100 = of_int k"
  by (simp add: round2_def Math_round_def)

lemma round2_near: "\<bar>round2 x - x\<bar> \<le> 1 / 200"
proof -
  have "of_int \<lfloor>x * 100 + 1 / 2\<rfloor> \<le> x * 100 + 1 / 2"
    and "x * 100 + 1 / 2 < of_int \<lfloor>x * 100 + 1 / 2\<rfloor> + 1"
    by linarith+
  then have "\<bar>of_int \<lfloor>x * 100 + 1 / 2\<rfloor> - x * 100\<bar> \<le> 1 / 2"
    by linarith
  then show ?thesis
    by (simp add: round2_def Math_round_def field_simps abs_le_iff)
qed

subsection \<open>Monthly trends\<close>






subsection \<open>Category distribution\<close>






















lemma calculateCategoryDistribution_example:
  "calculateCategoryDistribution
     [sample_course 1 ''Programming'' (1999 / 100), sample_course 2 ''Database'' (4 / 3),
      sample_course 3 ''Programming'' 5]
     [sample_enrollment 1 2 1 COMPLETED, sample_enrollment 2 2 2 COMPLETED,
      sample_enrollment 3 3 2 COMPLETED, sample_enrollment 4 2 3 ENROLLED,
      sample_enrollment 5 9 3 ENROLLED] =
   [\<lparr>cs_category = ''Database'', cs_courseCount = 1, cs_enrollmentCount = 3, cs_revenue = 4\<rparr>,
    \<lparr>cs_category = ''Programming'', cs_courseCount = 2, cs_enrollmentCount = 1,
      cs_revenue = 5\<rparr>]"
  by code_simp


subsection \<open>The transform steps\<close>

lemma date_of_required_converted: "date_of_required parse v = converted parse v"
  by (cases v) (simp_all add: date_of_required_def)

lemma date_of_optional_converted: "date_of_optional parse v = converted_optional parse v"
proof (cases v)
  case None
  then show ?thesis by (simp add: date_of_optional_def)
next
  case (Some x)
  then show ?thesis by (cases x) (simp_all add: date_of_optional_def)
qed

lemma run_get_ok:
  "catchError h (rx_map f (http_request call (Inr v))) w =
   (Inr (f v), w\<lparr>requests := requests w @ [call]\<rparr>)"
  by (simp add: catchError_def rx_map_def http_request_def)


text \<open>
  Claim C7, as amended. Every record that a collection-service fetch returns has
  gone through the transform step of its service. The step turns a required date
  field (\<open>createdAt\<close> of students and courses, \<open>enrollmentDate\<close>) that arrives as a
  string into a \<open>Date\<close>, and an optional date field (\<open>updatedAt\<close>, \<open>dateOfBirth\<close>,
  \<open>completionDate\<close>, \<open>lastAccessedDate\<close>) that arrives as a string other than the
  empty one; a field that is a \<open>Date\<close> already, an absent optional field and an
  optional field holding the empty string are left as they are, and so is every
  other field of the record.
\<close>

theorem transform_dates:
  "fst (getAllStudents parse (Inr ss) w) = Inr (map (transformStudent parse) ss) \<and>
   fst (getAllCourses parse (Inr cs) w) = Inr (map (transformCourse parse) cs) \<and>
   fst (getAllEnrollments parse (Inr es) w) = Inr (map (transformEnrollment parse) es) \<and>
   s_createdAt (transformStudent parse s) = converted parse (s_createdAt s) \<and>
   s_updatedAt (transformStudent parse s) = converted_optional parse (s_updatedAt s) \<and>
   s_dateOfBirth (transformStudent parse s) = converted_optional parse (s_dateOfBirth s) \<and>
   (transformStudent parse s)
     \<lparr>s_createdAt := s_createdAt s, s_updatedAt := s_updatedAt s,
      s_dateOfBirth := s_dateOfBirth s\<rparr> = s \<and>
   c_createdAt (transformCourse parse c) = converted parse (c_createdAt c) \<and>
   c_updatedAt (transformCourse parse c) = converted_optional parse (c_updatedAt c) \<and>
   (transformCourse parse c)\<lparr>c_createdAt := c_createdAt c, c_updatedAt := c_updatedAt c\<rparr> = c \<and>
   e_enrollmentDate (transformEnrollment parse e) = converted parse (e_enrollmentDate e) \<and>
   e_completionDate (transformEnrollment parse e) =
     converted_optional parse (e_completionDate e) \<and>
   e_lastAccessedDate (transformEnrollment parse e) =
     converted_optional parse (e_lastAccessedDate e) \<and>
   (transformEnrollment parse e)
     \<lparr>e_enrollmentDate := e_enrollmentDate e, e_completionDate := e_completionDate e,
      e_lastAccessedDate := e_lastAccessedDate e\<rparr> = e"
  by (simp add: getAllStudents_def getAllCourses_def getAllEnrollments_def run_get_ok
      transformStudent_def transformCourse_def transformEnrollment_def
      date_of_required_converted date_of_optional_converted)

theorem transform_dates_witness:
  "s_createdAt (transformStudent parse_ymd (sample_student 1)) =
     DateObj (Date (Some 1706745600000)) \<and>
   s_updatedAt (transformStudent parse_ymd (sample_student 1)) = None \<and>
   e_completionDate (transformEnrollment parse_ymd
     ((sample_enrollment 1 1 1 COMPLETED)
        \<lparr>e_completionDate := Some (DateObj (Date (Some 86400000)))\<rparr>)) =
     Some (DateObj (Date (Some 86400000)))"
  using transform_dates [of parse_ymd "[]" initial_world "[]" "[]" "sample_student 1"
      "sample_course 1 ''Database'' 5"
      "(sample_enrollment 1 1 1 COMPLETED)
         \<lparr>e_completionDate := Some (DateObj (Date (Some 86400000)))\<rparr>"]
  by (simp add: sample_student_def sample_enrollment_def days_from_civil_def digit_def)

text \<open>
  The claim as stated converts every date field that arrives as a string. The
  guard \<open>student.updatedAt && ...\<close> of an optional field is false for the empty
  string, which therefore stays a string.
\<close>

theorem transform_empty_string_counterexample:
  "s_updatedAt (transformStudent parse_ymd
     ((sample_student 1)\<lparr>s_updatedAt := Some (DateStr [])\<rparr>)) = Some (DateStr []) \<and>
   is_string (s_updatedAt (transformStudent parse_ymd
     ((sample_student 1)\<lparr>s_updatedAt := Some (DateStr [])\<rparr>)))"
  by (simp add: transformStudent_def date_of_optional_def)

subsection \<open>Failed requests\<close>

lemmas rx_defs =
  catchError_def rx_map_def rx_tap_def http_request_def throwError_def log_error_def
  subscribe_def







subsection \<open>The caches\<close>

text \<open>
  \<open>findIndex\<close> returns -1 exactly when no element satisfies the predicate, and
  otherwise the index of the first element that does.
\<close>

lemma findIndex_range: "-1 \<le> findIndex P xs \<and> findIndex P xs < int (length xs)"
  by (induction xs) (auto simp add: Let_def)

lemma findIndex_none: "(findIndex P xs = -1) = (\<forall>x \<in> set xs. \<not> P x)"
proof (induction xs)
  case Nil
  show ?case by simp
next
  case (Cons x xs)
  have "findIndex P xs + 1 \<noteq> -1"
    using findIndex_range [of P xs] by linarith
  with Cons show ?case
    by (auto simp add: Let_def)
qed

lemma findIndex_first:
  "findIndex P xs \<noteq> -1 \<Longrightarrow>
   P (xs ! nat (findIndex P xs)) \<and> (\<forall>j < nat (findIndex P xs). \<not> P (xs ! j))"
proof (induction xs)
  case Nil
  then show ?case by simp
next
  case (Cons x xs)
  show ?case
  proof (cases "P x")
    case True
    then show ?thesis by simp
  next
    case False
    with Cons.prems have ne: "findIndex P xs \<noteq> -1"
      by (auto simp add: Let_def)
    have ge: "0 \<le> findIndex P xs"
      using findIndex_range [of P xs] ne by linarith
    then have n: "nat (findIndex P xs + 1) = Suc (nat (findIndex P xs))"
      by simp
    from Cons.IH [OF ne] False ne show ?thesis
      by (auto simp add: Let_def n less_Suc_eq_0_disj)
  qed
qed

text \<open>
  Claim C2, as amended. For each entity kind, a successful load or refresh
  overwrites the cache with the fetched and transformed array, and a failed load
  and the fetching operations leave it unchanged. The cache changes in three more
  ways, none of which refetches the collection: a successful creation appends the
  transformed created record; a successful update or patch replaces, in place, the
  first cached record that has the identifier, and changes nothing when no cached
  record has it; a successful deletion removes every cached record with the
  identifier. Creating and deleting an enrollment also refresh the caches of
  courses and students.
\<close>

theorem cache_updates:
  "coursesCache (loadAllCourses parse (Inr cs) w) = map (transformCourse parse) cs \<and>
   coursesCache (CourseService_refreshCache parse (Inr cs) w) = map (transformCourse parse) cs \<and>
   coursesCache (loadAllCourses parse (Inl err) w) = coursesCache w \<and>
   coursesCache (snd (getAllCourses parse rcs w)) = coursesCache w \<and>
   coursesCache (snd (getCourseById parse i rc w)) = coursesCache w \<and>
   coursesCache (snd (createCourse parse clock cp (Inr c) w)) =
     coursesCache w @ [transformCourse parse c] \<and>
   coursesCache (snd (updateCourse parse clock i cp (Inr c) w)) =
     (if findIndex (\<lambda>x. c_id x = i) (coursesCache w) = -1 then coursesCache w
      else (coursesCache w)
             [nat (findIndex (\<lambda>x. c_id x = i) (coursesCache w)) := transformCourse parse c]) \<and>
   coursesCache (snd (patchCourse parse i cp (Inr c) w)) =
     (if findIndex (\<lambda>x. c_id x = i) (coursesCache w) = -1 then coursesCache w
      else (coursesCache w)
             [nat (findIndex (\<lambda>x. c_id x = i) (coursesCache w)) := transformCourse parse c]) \<and>
   coursesCache (snd (deleteCourse i (Inr ()) w)) =
     filter (\<lambda>x. c_id x \<noteq> i) (coursesCache w) \<and>
   studentsCache (loadAllStudents parse (Inr ss) w) = map (transformStudent parse) ss \<and>
   studentsCache (StudentService_refreshCache parse (Inr ss) w) =
     map (transformStudent parse) ss \<and>
   studentsCache (loadAllStudents parse (Inl err) w) = studentsCache w \<and>
   studentsCache (snd (getAllStudents parse rss w)) = studentsCache w \<and>
   studentsCache (snd (getStudentById parse i rs w)) = studentsCache w \<and>
   studentsCache (snd (createStudent parse clock sp (Inr s) w)) =
     studentsCache w @ [transformStudent parse s] \<and>
   studentsCache (snd (updateStudent parse clock i sp (Inr s) w)) =
     (if findIndex (\<lambda>x. s_id x = i) (studentsCache w) = -1 then studentsCache w
      else (studentsCache w)
             [nat (findIndex (\<lambda>x. s_id x = i) (studentsCache w)) := transformStudent parse s]) \<and>
   studentsCache (snd (patchStudent parse i sp (Inr s) w)) =
     (if findIndex (\<lambda>x. s_id x = i) (studentsCache w) = -1 then studentsCache w
      else (studentsCache w)
             [nat (findIndex (\<lambda>x. s_id x = i) (studentsCache w)) := transformStudent parse s]) \<and>
   studentsCache (snd (deleteStudent i (Inr ()) w)) =
     filter (\<lambda>x. s_id x \<noteq> i) (studentsCache w) \<and>
   enrollmentsCache (loadAllEnrollments parse (Inr es) w) =
     map (transformEnrollment parse) es \<and>
   enrollmentsCache (EnrollmentService_refreshCache parse (Inr es) w) =
     map (transformEnrollment parse) es \<and>
   enrollmentsCache (loadAllEnrollments parse (Inl err) w) = enrollmentsCache w \<and>
   enrollmentsCache (snd (getAllEnrollments parse res w)) = enrollmentsCache w \<and>
   enrollmentsCache (snd (getEnrollmentById parse i re w)) = enrollmentsCache w \<and>
   enrollmentsCache (snd (getEnrollmentStats parse res w)) = enrollmentsCache w \<and>
   enrollmentsCache (snd (createEnrollment parse clock req (Inr e) rcs rss w)) =
     enrollmentsCache w @ [transformEnrollment parse e] \<and>
   coursesCache (snd (createEnrollment parse clock req (Inr e) (Inr cs) rss w)) =
     map (transformCourse parse) cs \<and>
   studentsCache (snd (createEnrollment parse clock req (Inr e) rcs (Inr ss) w)) =
     map (transformStudent parse) ss \<and>
   enrollmentsCache (snd (updateEnrollment parse i ep (Inr e) w)) =
     (if findIndex (\<lambda>x. e_id x = i) (enrollmentsCache w) = -1 then enrollmentsCache w
      else (enrollmentsCache w)
             [nat (findIndex (\<lambda>x. e_id x = i) (enrollmentsCache w)) :=
                transformEnrollment parse e]) \<and>
   enrollmentsCache (snd (patchEnrollment parse i ep (Inr e) w)) =
     (if findIndex (\<lambda>x. e_id x = i) (enrollmentsCache w) = -1 then enrollmentsCache w
      else (enrollmentsCache w)
             [nat (findIndex (\<lambda>x. e_id x = i) (enrollmentsCache w)) :=
                transformEnrollment parse e]) \<and>
   enrollmentsCache (snd (deleteEnrollment parse i (Inr ()) rcs rss w)) =
     filter (\<lambda>x. e_id x \<noteq> i) (enrollmentsCache w) \<and>
   coursesCache (snd (deleteEnrollment parse i (Inr ()) (Inr cs) rss w)) =
     map (transformCourse parse) cs \<and>
   studentsCache (snd (deleteEnrollment parse i (Inr ()) rcs (Inr ss) w)) =
     map (transformStudent parse) ss"
  apply (intro conjI)
  apply (simp_all add: rx_defs
      CourseService_handleError_def StudentService_handleError_def
      EnrollmentService_handleError_def
      getAllCourses_def getCourseById_def createCourse_def updateCourse_def patchCourse_def
      deleteCourse_def getAllStudents_def getStudentById_def createStudent_def
      updateStudent_def patchStudent_def deleteStudent_def
      getAllEnrollments_def getEnrollmentById_def createEnrollment_def updateEnrollment_def
      patchEnrollment_def deleteEnrollment_def getEnrollmentStats_def
      loadAllCourses_def loadAllStudents_def loadAllEnrollments_def
      CourseService_refreshCache_def StudentService_refreshCache_def
      EnrollmentService_refreshCache_def
      replace_course_def replace_student_def replace_enrollment_def
      Let_def split: prod.splits sum.splits)
  done

text \<open>
  The claim as stated has the cache hold the last fetched collection at all
  times. After the collection \<open>[student 1]\<close> was fetched into the cache, creating
  student 2 leaves a cache of two students, which no fetch returned.
\<close>

theorem cache_append_counterexample:
  "studentsCache (loadAllStudents parse_ymd (Inr [sample_student 1]) initial_world) =
     map (transformStudent parse_ymd) [sample_student 1] \<and>
   studentsCache
     (snd (createStudent parse_ymd (\<lambda>k. ''2024-05-01T08:00:00.000Z'')
             (no_student_fields\<lparr>su_name := Some ''Student'',
                                 su_email := Some ''student@example.com''\<rparr>)
             (Inr (sample_student 2))
             (loadAllStudents parse_ymd (Inr [sample_student 1]) initial_world))) =
     [transformStudent parse_ymd (sample_student 1),
      transformStudent parse_ymd (sample_student 2)] \<and>
   [transformStudent parse_ymd (sample_student 1),
    transformStudent parse_ymd (sample_student 2)] \<noteq>
     map (transformStudent parse_ymd) [sample_student 1]"
  by (simp add: createStudent_def loadAllStudents_def getAllStudents_def run_http_ok
      run_get_ok subscribe_def Let_def)

subsection \<open>The duplicate check of the enrollment form\<close>

text \<open>\<open>is_active\<close> is the predicate by which \<open>getEnrollmentStats\<close> counts.\<close>

lemma active_count_is_active:
  "activeEnrollments (enrollment_stats es) = length (filter is_active es)"
  by (simp add: enrollment_stats_def Let_def is_active_def [abs_def])

lemma find_Some_iff_ex: "(find P xs \<noteq> None) = (\<exists>x \<in> set xs. P x)"
  by (induction xs) auto

lemma validateDuplicateEnrollment_marks:
  assumes "selected (form_courseId this)" and "selected (form_studentId this)"
  shows "form_errors (fst (validateDuplicateEnrollment parse (Inr es) (this, w))) =
         (if \<exists>e \<in> set es. Some (e_courseId e) = form_courseId this \<and>
                            Some (e_studentId e) = form_studentId this \<and>
                            (e_status e = IN_PROGRESS \<or> e_status e = PENDING)
          then Some duplicate else None)"
proof -
  let ?P = "\<lambda>e. Some (e_courseId e) = form_courseId this \<and>
                 Some (e_studentId e) = form_studentId this \<and>
                 (e_status e = IN_PROGRESS \<or> e_status e = PENDING)"
  have t: "?P (transformEnrollment parse e) = ?P e" for e
    by (simp add: transformEnrollment_def)
  have "(find ?P (map (transformEnrollment parse) es) \<noteq> None) = (\<exists>e \<in> set es. ?P e)"
    unfolding find_Some_iff_ex by (simp add: t)
  then show ?thesis
    using assms
    by (auto simp add: validateDuplicateEnrollment_def getAllEnrollments_def run_get_ok
        showMessage_def Let_def split: option.splits)
qed

text \<open>
  Claim C1. The duplicate check is meant to mark the form when the student has an
  active enrollment in the course. What it marks is given by the lemma above: an
  enrollment of the course and the student with status \<open>In Progress\<close> or \<open>Pending\<close>.
  An existing enrollment with status \<open>Enrolled\<close>, the status that
  \<open>createEnrollment\<close> gives to every new enrollment and that \<open>getEnrollmentStats\<close>
  counts as active, does not mark the form; an enrollment with status \<open>Pending\<close>,
  which is not counted as active, does.
\<close>

theorem validateDuplicateEnrollment_misses_enrolled:
  "is_active (sample_enrollment 1 1 1 ENROLLED) \<and>
   fst (validateDuplicateEnrollment parse_ymd (Inr [sample_enrollment 1 1 1 ENROLLED])
          (\<lparr>form_courseId = Some 1, form_studentId = Some 1, form_errors = None,
            snackBar = []\<rparr>, initial_world)) =
     \<lparr>form_courseId = Some 1, form_studentId = Some 1, form_errors = None, snackBar = []\<rparr> \<and>
   \<not> is_active (sample_enrollment 1 1 1 PENDING) \<and>
   fst (validateDuplicateEnrollment parse_ymd (Inr [sample_enrollment 1 1 1 PENDING])
          (\<lparr>form_courseId = Some 1, form_studentId = Some 1, form_errors = None,
            snackBar = []\<rparr>, initial_world)) =
     \<lparr>form_courseId = Some 1, form_studentId = Some 1, form_errors = Some duplicate,
      snackBar = [(''This student is already enrolled in this course'', ''error'')]\<rparr>"
  by (simp add: validateDuplicateEnrollment_def getAllEnrollments_def run_get_ok
      showMessage_def Let_def is_active_def sample_enrollment_def transformEnrollment_def)

end
